theory Spec2Isabelle
  imports Complex_Main
begin

section \<open>Data model (src/types.ts)\<close>

text \<open>
  JavaScript numbers are modelled as real numbers: every time and duration below is
  computed with exact arithmetic, so rounding of IEEE doubles, infinities and NaN are
  outside this development. A division by zero, which JavaScript answers with an
  infinity or NaN, is 0 in HOL; the statements that divide by the speed assume that it
  is not zero.
\<close>

datatype sigstate = On | Off

record SignalInterval =
  startTime :: real
  duration :: real
  state :: sigstate



section \<open>Constants (src/constants.ts)\<close>

definition MORSE_MAP :: "char \<Rightarrow> string option" where
  "MORSE_MAP = map_of
    [(CHR ''A'', ''.-''), (CHR ''B'', ''-...''), (CHR ''C'', ''-.-.''), (CHR ''D'', ''-..''),
     (CHR ''E'', ''.''), (CHR ''F'', ''..-.''), (CHR ''G'', ''--.''), (CHR ''H'', ''....''),
     (CHR ''I'', ''..''), (CHR ''J'', ''.---''), (CHR ''K'', ''-.-''), (CHR ''L'', ''.-..''),
     (CHR ''M'', ''--''), (CHR ''N'', ''-.''), (CHR ''O'', ''---''), (CHR ''P'', ''.--.''),
     (CHR ''Q'', ''--.-''), (CHR ''R'', ''.-.''), (CHR ''S'', ''...''), (CHR ''T'', ''-''),
     (CHR ''U'', ''..-''), (CHR ''V'', ''...-''), (CHR ''W'', ''.--''), (CHR ''X'', ''-..-''),
     (CHR ''Y'', ''-.--''), (CHR ''Z'', ''--..''),
     (CHR ''1'', ''.----''), (CHR ''2'', ''..---''), (CHR ''3'', ''...--''),
     (CHR ''4'', ''....-''), (CHR ''5'', ''.....''), (CHR ''6'', ''-....''),
     (CHR ''7'', ''--...''), (CHR ''8'', ''---..''), (CHR ''9'', ''----.''),
     (CHR ''0'', ''-----''),
     (CHR ''.'', ''.-.-.-''), (CHR '','', ''--..--''), (CHR ''?'', ''..--..''),
     (CHR 0x27, ''.----.''), (CHR ''!'', ''-.-.--''), (CHR ''/'', ''-..-.''),
     (CHR ''('', ''-.--.''), (CHR '')'', ''-.--.-''), (CHR ''&'', ''.-...''),
     (CHR '':'', ''---...''), (CHR '';'', ''-.-.-.''), (CHR ''='', ''-...-''),
     (CHR ''+'', ''.-.-.''), (CHR ''-'', ''-....-''), (CHR ''_'', ''..--.-''),
     (CHR 0x22, ''.-..-.''), (CHR ''$'', ''...-..-''), (CHR ''@'', ''.--.-.''),
     (CHR '' '', ''/'')]"

definition calculateDotLength :: "real \<Rightarrow> real" where
  "calculateDotLength wpm = 1200 / wpm"

section \<open>The ideal timing synthesizer (textToIdealTiming in src/utils/morseUtils.ts)\<close>

text \<open>
  \<open>text.toUpperCase()\<close> on the 8-bit characters of \<open>string\<close>: the ASCII letters are
  raised, every other character is kept. The characters the regular expression
  \<open>[^A-Z0-9 .,?'!/()&:;=+_"$@-]\<close> does not exclude are listed in \<open>supportedChars\<close>;
  \<open>replace\<close> turns every other character into a blank.
\<close>

definition toUpperCase :: "string \<Rightarrow> string" where
  "toUpperCase text =
     map (\<lambda>c. case map_of (zip ''abcdefghijklmnopqrstuvwxyz'' ''ABCDEFGHIJKLMNOPQRSTUVWXYZ'') c of
                 Some C \<Rightarrow> C
               | None \<Rightarrow> c) text"

definition supportedChars :: "char list" where
  "supportedChars = ''ABCDEFGHIJKLMNOPQRSTUVWXYZ0123456789 .,?!/()&:;=+_$@-'' @ [CHR 0x27, CHR 0x22]"

definition cleanTextOf :: "string \<Rightarrow> string" where
  "cleanTextOf text = map (\<lambda>c. if c \<in> set supportedChars then c else CHR '' '') (toUpperCase text)"

text \<open>
  The loops carry the array \<open>intervals\<close> and the variable \<open>currentTime\<close>.
  \<open>symbolLoop\<close> is the inner loop over the symbols of one code: \<open>j < code.length - 1\<close>
  holds exactly when symbols remain after the current one.
\<close>

fun symbolLoop :: "real \<Rightarrow> string \<Rightarrow> SignalInterval list \<times> real \<Rightarrow> SignalInterval list \<times> real" where
  "symbolLoop dotMs [] (intervals, currentTime) = (intervals, currentTime)"
| "symbolLoop dotMs (symbol # rest) (intervals, currentTime) =
     (let dur = (if symbol = CHR ''.'' then dotMs else 3 * dotMs);
          intervals1 = intervals @ [\<lparr>startTime = currentTime, duration = dur, state = On\<rparr>];
          currentTime1 = currentTime + dur
      in if rest \<noteq> []
         then symbolLoop dotMs rest
                (intervals1 @ [\<lparr>startTime = currentTime1, duration = dotMs, state = Off\<rparr>],
                 currentTime1 + dotMs)
         else symbolLoop dotMs rest (intervals1, currentTime1))"

text \<open>
  One iteration of the outer loop. A blank extends the last interval when it is an OFF
  interval; \<open>!code\<close> is true for a missing entry and for the empty string.
\<close>

definition charStep :: "real \<Rightarrow> char \<Rightarrow> SignalInterval list \<times> real \<Rightarrow> SignalInterval list \<times> real" where
  "charStep dotMs c acc =
     (case acc of (intervals, currentTime) \<Rightarrow>
        if c = CHR '' '' then
          (if length intervals > 0 \<and> state (intervals ! (length intervals - 1)) = Off
           then (intervals[length intervals - 1 :=
                    (intervals ! (length intervals - 1))
                      \<lparr>duration := duration (intervals ! (length intervals - 1)) + 4 * dotMs\<rparr>],
                 currentTime + 4 * dotMs)
           else (intervals, currentTime))
        else (case MORSE_MAP c of
                None \<Rightarrow> (intervals, currentTime)
              | Some code \<Rightarrow>
                  if code = [] then (intervals, currentTime)
                  else (case symbolLoop dotMs code (intervals, currentTime) of
                          (intervals1, currentTime1) \<Rightarrow>
                            (intervals1 @ [\<lparr>startTime = currentTime1, duration = 3 * dotMs, state = Off\<rparr>],
                             currentTime1 + 3 * dotMs))))"

fun charLoop :: "real \<Rightarrow> string \<Rightarrow> SignalInterval list \<times> real \<Rightarrow> SignalInterval list \<times> real" where
  "charLoop dotMs [] acc = acc"
| "charLoop dotMs (c # cs) acc = charLoop dotMs cs (charStep dotMs c acc)"

definition textToIdealTiming :: "string \<Rightarrow> real \<Rightarrow> SignalInterval list" where
  "textToIdealTiming text wpm =
     (let dotMs = calculateDotLength wpm / 1000
      in fst (charLoop dotMs (cleanTextOf text) ([], 0)))"

section \<open>The command detector (detectCommand in src/utils/morseUtils.ts)\<close>

text \<open>\<open>xs.slice(-3)\<close>: the last three elements, or all of them when there are fewer.\<close>

definition sliceLast3 :: "'a list \<Rightarrow> 'a list" where
  "sliceLast3 xs = drop (length xs - 3) xs"

definition detectCommand :: "SignalInterval list \<Rightarrow> real \<Rightarrow> char \<Rightarrow> bool" where
  "detectCommand signals wpm commandChar =
     (if length signals < 3 then False
      else let dotMs = calculateDotLength wpm / 1000;
               dotMax = dotMs * 2.0;
               dahMin = dotMs * 2.0;
               onSignals = filter (\<lambda>s. state s = On) signals
           in if length onSignals < 3 then False
              else let last3 = sliceLast3 onSignals;
                       isDah1 = duration (last3 ! 0) > dahMin;
                       isDit = duration (last3 ! 1) < dotMax;
                       isDah2 = duration (last3 ! 2) > dahMin;
                       targetCode = MORSE_MAP commandChar
                   in if targetCode = Some ''-.-'' \<and> isDah1 \<and> isDit \<and> isDah2 then True
                      else False)"

section \<open>Alignment (src/components/Timeline.tsx)\<close>


definition alignedUserSignals :: "SignalInterval list \<Rightarrow> SignalInterval list \<Rightarrow> SignalInterval list" where
  "alignedUserSignals idealSignals displaySignals =
     (let firstIdeal = find (\<lambda>s. state s = On) idealSignals;
          firstUser = find (\<lambda>s. state s = On) displaySignals
      in case (firstUser, firstIdeal) of
           (Some fu, Some fi) \<Rightarrow>
             (let shift = startTime fi - startTime fu
              in map (\<lambda>s. s\<lparr>startTime := startTime s + shift\<rparr>) displaySignals)
         | _ \<Rightarrow> [])"

section \<open>The audio keyer (useAudioKeyer in src/utils/morseUtils.ts)\<close>

text \<open>
  The hook's React state and refs. \<open>isListening\<close> stands for the state and for
  \<open>isListeningRef\<close>, which mirrors it; \<open>audioContextOpen\<close> says that
  \<open>audioContextRef.current\<close> is not null, \<open>rafScheduled\<close> that an animation frame is
  requested; the audio clock \<open>audioContext.currentTime\<close> is an argument of every
  operation that reads it. The callback \<open>onSignalChange\<close> belongs to the caller and is
  not modelled.
\<close>

record keyer =
  isListening :: bool
  currentLevel :: real
  activeSignalStart :: "real option"
  isSignalOn :: bool
  audioContextOpen :: bool
  rafScheduled :: bool
  signalsRef :: "SignalInterval list"
  isSignalOnRef :: bool
  lastChangeTimeRef :: real
  startTimeRef :: real
  currentLevelRef :: real
  smoothedEnvRef :: real
  thresholdRef :: real

text \<open>The hook before any capture: the initial values of \<open>useState\<close> and \<open>useRef\<close>.\<close>

definition initialKeyer :: "real \<Rightarrow> keyer" where
  "initialKeyer threshold =
     \<lparr>isListening = False, currentLevel = 0, activeSignalStart = None, isSignalOn = False,
      audioContextOpen = False, rafScheduled = False, signalsRef = [], isSignalOnRef = False,
      lastChangeTimeRef = 0, startTimeRef = 0, currentLevelRef = 0, smoothedEnvRef = 0,
      thresholdRef = threshold\<rparr>"

definition cleanup :: "keyer \<Rightarrow> keyer" where
  "cleanup k = k\<lparr>rafScheduled := False, audioContextOpen := False, isListening := False,
                 currentLevel := 0, activeSignalStart := None, isSignalOn := False,
                 smoothedEnvRef := 0\<rparr>"

definition stopListening :: "real \<Rightarrow> keyer \<Rightarrow> keyer" where
  "stopListening now k =
     cleanup
       (if audioContextOpen k then
          (let relativeNow = max 0 (now - startTimeRef k);
               dur = relativeNow - lastChangeTimeRef k
           in if dur > 0.01
              then k\<lparr>signalsRef := signalsRef k @
                        [\<lparr>startTime = lastChangeTimeRef k, duration = dur,
                          state = (if isSignalOnRef k then On else Off)\<rparr>]\<rparr>
              else k)
        else k)"

definition updateUI :: "real \<Rightarrow> keyer \<Rightarrow> keyer" where
  "updateUI now k0 =
     (let k = k0\<lparr>currentLevel := currentLevelRef k0\<rparr>
      in if isListening k \<and> \<not> isSignalOnRef k \<and> audioContextOpen k then
           (let relativeTime = max 0 (now - startTimeRef k);
                silenceDuration = relativeTime - lastChangeTimeRef k
            in if length (signalsRef k) > 0 \<and> silenceDuration > 5.0
               then stopListening now k
               else k\<lparr>rafScheduled := True\<rparr>)
         else k\<lparr>rafScheduled := True\<rparr>)"

text \<open>
  \<open>startListening\<close>: \<open>micGranted\<close> says whether the microphone and the audio graph were
  obtained; when they were not, the \<open>catch\<close> branch runs.
\<close>

definition startListening :: "bool \<Rightarrow> real \<Rightarrow> keyer \<Rightarrow> keyer" where
  "startListening micGranted now k0 =
     (let k = (if audioContextOpen k0 then cleanup k0 else k0)
      in if \<not> micGranted then k\<lparr>isListening := False\<rparr>
         else k\<lparr>audioContextOpen := True, startTimeRef := now, lastChangeTimeRef := 0,
                signalsRef := [], isSignalOnRef := False, smoothedEnvRef := 0,
                isListening := True, activeSignalStart := None, rafScheduled := True\<rparr>)"


subsection \<open>The detection loop of \<open>onaudioprocess\<close>\<close>

text \<open>
  The variables the sample loop reads and writes: the locals \<open>env\<close>, \<open>signalState\<close> and
  \<open>maxValInChunk\<close>, and the refs \<open>signalsRef.current\<close> and \<open>lastChangeTimeRef.current\<close>.
\<close>

record detector =
  env :: real
  signalState :: bool
  maxValInChunk :: real
  signals :: "SignalInterval list"
  lastChangeTime :: real

text \<open>The branch "Transition to ON" of the loop body, taken at \<open>relativeTime\<close>.\<close>

definition transitionToOn :: "real \<Rightarrow> detector \<Rightarrow> detector" where
  "transitionToOn relativeTime d =
     (let durationSinceLast = relativeTime - lastChangeTime d
      in if durationSinceLast < 0.015 \<and> length (signals d) > 0 then
           (let lastSig = last (signals d)
            in d\<lparr>signalState := True,
                 signals := butlast (signals d),
                 lastChangeTime := (if state lastSig = On then startTime lastSig
                                    else lastChangeTime d)\<rparr>)
         else
           d\<lparr>signals := (if length (signals d) > 0 \<or> lastChangeTime d > 0
                          then signals d @ [\<lparr>startTime = lastChangeTime d,
                                              duration = durationSinceLast, state = Off\<rparr>]
                          else signals d),
             lastChangeTime := relativeTime,
             signalState := True\<rparr>)"

text \<open>The branch "Transition to OFF".\<close>

definition transitionToOff :: "real \<Rightarrow> detector \<Rightarrow> detector" where
  "transitionToOff relativeTime d =
     (let durationSinceLast = relativeTime - lastChangeTime d
      in if durationSinceLast < 0.015 then
           (if length (signals d) > 0 \<and> state (last (signals d)) = Off
            then d\<lparr>signals := butlast (signals d),
                   lastChangeTime := startTime (last (signals d)),
                   signalState := False\<rparr>
            else d\<lparr>signalState := False\<rparr>)
         else
           d\<lparr>signals := signals d @ [\<lparr>startTime = lastChangeTime d,
                                       duration = durationSinceLast, state = On\<rparr>],
             lastChangeTime := relativeTime,
             signalState := False\<rparr>)"

text \<open>
  One iteration of the sample loop, for sample number \<open>i\<close> with value \<open>x\<close>.
  \<open>startT\<close> is \<open>startTimeRef.current\<close>.
\<close>

definition processSample ::
  "real \<Rightarrow> real \<Rightarrow> real \<Rightarrow> real \<Rightarrow> real \<Rightarrow> nat \<Rightarrow> real \<Rightarrow> detector \<Rightarrow> detector" where
  "processSample th lowerTh bufferStartTime sampleRate startT i x d0 =
     (let absVal = \<bar>x\<bar>;
          d1 = (if absVal > maxValInChunk d0 then d0\<lparr>maxValInChunk := absVal\<rparr> else d0);
          d = (if absVal > env d1 then d1\<lparr>env := env d1 * 0.6 + absVal * 0.4\<rparr>
               else d1\<lparr>env := env d1 * 0.98\<rparr>);
          preciseTime = bufferStartTime + real i / sampleRate;
          relativeTime = max 0 (preciseTime - startT)
      in if \<not> signalState d \<and> env d > th then transitionToOn relativeTime d
         else if signalState d \<and> env d < lowerTh then transitionToOff relativeTime d
         else d)"

fun sampleLoop ::
  "real \<Rightarrow> real \<Rightarrow> real \<Rightarrow> real \<Rightarrow> real \<Rightarrow> nat \<Rightarrow> real list \<Rightarrow> detector \<Rightarrow> detector" where
  "sampleLoop th lowerTh bufferStartTime sampleRate startT i [] d = d"
| "sampleLoop th lowerTh bufferStartTime sampleRate startT i (x # xs) d =
     sampleLoop th lowerTh bufferStartTime sampleRate startT (Suc i) xs
       (processSample th lowerTh bufferStartTime sampleRate startT i x d)"

record audioEvent =
  inputData :: "real list"
  sampleRate :: real
  playbackTime :: real

text \<open>
  The end of the callback: the locals are written back to the refs, and the React state
  follows when the stable state changed in this block.
\<close>

definition writeBack :: "detector \<Rightarrow> keyer \<Rightarrow> keyer" where
  "writeBack d k =
     (let k1 = k\<lparr>signalsRef := signals d, lastChangeTimeRef := lastChangeTime d,
                 smoothedEnvRef := env d, currentLevelRef := maxValInChunk d\<rparr>
      in if signalState d \<noteq> isSignalOnRef k
         then k1\<lparr>isSignalOnRef := signalState d, isSignalOn := signalState d,
                 activeSignalStart := (if signalState d then Some (lastChangeTime d) else None)\<rparr>
         else k1)"

definition blockResult :: "audioEvent \<Rightarrow> keyer \<Rightarrow> detector" where
  "blockResult e k =
     (let th = thresholdRef k;
          lowerTh = th * 0.6
      in sampleLoop th lowerTh (playbackTime e) (sampleRate e) (startTimeRef k) 0 (inputData e)
           \<lparr>env = smoothedEnvRef k, signalState = isSignalOnRef k, maxValInChunk = 0,
            signals = signalsRef k, lastChangeTime = lastChangeTimeRef k\<rparr>)"

definition onaudioprocess :: "audioEvent \<Rightarrow> keyer \<Rightarrow> keyer" where
  "onaudioprocess e k = writeBack (blockResult e k) k"

subsection \<open>Capture sessions\<close>





text \<open>
  The normal rule in the words of the specification: push the open segment, then start
  a new one at \<open>t\<close> with the new state.
\<close>

definition normalRule :: "real \<Rightarrow> detector \<Rightarrow> detector" where
  "normalRule t d =
     d\<lparr>signals := signals d @ [\<lparr>startTime = lastChangeTime d, duration = t - lastChangeTime d,
                                 state = (if signalState d then On else Off)\<rparr>],
       lastChangeTime := t,
       signalState := \<not> signalState d\<rparr>"



subsection \<open>Invariants of the synthesizer's loops\<close>



section \<open>The accumulator keeps the sequence invariant\<close>


lemma sigstate_neq [simp]: "(s \<noteq> Off) = (s = On)" "(s \<noteq> On) = (s = Off)"
  by (cases s; simp)+





lemma transitionToOn_normal:
  assumes "0.015 \<le> t - lastChangeTime d \<or> signals d = []"
  shows "transitionToOn t d =
           d\<lparr>signals := (if signals d \<noteq> [] \<or> lastChangeTime d > 0
                          then signals d @ [\<lparr>startTime = lastChangeTime d,
                                              duration = t - lastChangeTime d, state = Off\<rparr>]
                          else signals d),
             lastChangeTime := t, signalState := True\<rparr>"
  using assms by (auto simp: transitionToOn_def Let_def)

lemma transitionToOff_glitch:
  assumes "t - lastChangeTime d < 0.015"
  shows "transitionToOff t d =
           (if signals d \<noteq> [] \<and> state (last (signals d)) = Off
            then d\<lparr>signals := butlast (signals d),
                   lastChangeTime := startTime (last (signals d)), signalState := False\<rparr>
            else d\<lparr>signalState := False\<rparr>)"
  using assms by (simp add: transitionToOff_def Let_def)

lemma transitionToOff_normal:
  assumes "0.015 \<le> t - lastChangeTime d"
  shows "transitionToOff t d =
           d\<lparr>signals := signals d @ [\<lparr>startTime = lastChangeTime d,
                                       duration = t - lastChangeTime d, state = On\<rparr>],
             lastChangeTime := t, signalState := False\<rparr>"
  using assms by (simp add: transitionToOff_def Let_def)





lemma writeBack_refs:
  "signalsRef (writeBack d k) = signals d"
  "lastChangeTimeRef (writeBack d k) = lastChangeTime d"
  "isSignalOnRef (writeBack d k) = signalState d"
  by (auto simp: writeBack_def Let_def)

lemma writeBack_frame:
  "thresholdRef (writeBack d k) = thresholdRef k"
  "startTimeRef (writeBack d k) = startTimeRef k"
  "smoothedEnvRef (writeBack d k) = env d"
  by (auto simp: writeBack_def Let_def)








section \<open>Transitions of the accumulator\<close>

subsection \<open>Quiet samples\<close>

lemma sampleLoop_append:
  "sampleLoop th lowerTh b sr st i (xs @ ys) d =
     sampleLoop th lowerTh b sr st (i + length xs) ys (sampleLoop th lowerTh b sr st i xs d)"
  by (induction xs arbitrary: i d) simp_all

lemma processSample_quiet:
  assumes "signalState d" and "0 \<le> env d" and "0 \<le> maxValInChunk d"
    and "lowerTh \<le> env d * 0.98"
  shows "processSample th lowerTh b sr st i 0 d = d\<lparr>env := env d * 0.98\<rparr>"
  using assms by (simp add: processSample_def Let_def)

lemma sampleLoop_quiet:
  assumes "signalState d" and "0 \<le> env d" and "0 \<le> maxValInChunk d"
    and "lowerTh \<le> env d * 0.98 ^ n"
  shows "sampleLoop th lowerTh b sr st i (replicate n 0) d = d\<lparr>env := env d * 0.98 ^ n\<rparr>"
  using assms
proof (induction n arbitrary: i d)
  case 0
  then show ?case by simp
next
  case (Suc n)
  have "(0.98::real) ^ n \<le> 1"
    by (rule power_le_one) simp_all
  with \<open>0 \<le> env d\<close> have "env d * 0.98 ^ Suc n \<le> env d * 0.98"
    by (simp add: mult_left_le mult.assoc mult_left_mono)
  with Suc.prems have step: "processSample th lowerTh b sr st i 0 d = d\<lparr>env := env d * 0.98\<rparr>"
    by (intro processSample_quiet) simp_all
  from Suc.prems have "sampleLoop th lowerTh b sr st (Suc i) (replicate n 0) (d\<lparr>env := env d * 0.98\<rparr>)
                         = d\<lparr>env := env d * 0.98\<rparr>\<lparr>env := env (d\<lparr>env := env d * 0.98\<rparr>) * 0.98 ^ n\<rparr>"
    by (intro Suc.IH) (simp_all add: mult.assoc)
  with step show ?case
    by (simp add: mult.assoc)
qed

lemma sampleLoop_silent:
  assumes "\<not> signalState d" and "env d = 0" and "0 \<le> maxValInChunk d" and "0 \<le> th"
  shows "sampleLoop th lowerTh b sr st i (replicate n 0) d = d"
  using assms
proof (induction n arbitrary: i)
  case 0
  then show ?case by simp
next
  case (Suc n)
  then have "processSample th lowerTh b sr st i 0 d = d"
    by (simp add: processSample_def Let_def)
  with Suc show ?case
    by simp
qed

subsection \<open>A short ON pulse\<close>

text \<open>
  Claim C2, as amended. The detector is in the OFF state and either an interval is
  committed and the open OFF segment has lasted at least 15 ms, or the list is empty and
  \<open>lastChangeTime\<close> is positive. An ON edge at \<open>t1\<close> followed by an OFF edge at \<open>t2\<close> less
  than 15 ms later leaves the detector exactly as it was before the pulse: the OFF
  interval pushed at \<open>t1\<close> is popped again and \<open>lastChangeTime\<close> is restored, no interval
  is added for the pulse. The next ON edge, at \<open>t3\<close>, then commits one OFF interval that
  runs from the start of the OFF period before the pulse to \<open>t3\<close>.
\<close>

theorem short_on_pulse_merged:
  assumes "\<not> signalState d"
    and "(signals d \<noteq> [] \<and> 0.015 \<le> t1 - lastChangeTime d) \<or> (signals d = [] \<and> 0 < lastChangeTime d)"
    and "t2 - t1 < 0.015"
    and "0.015 \<le> t3 - lastChangeTime d"
  shows "transitionToOff t2 (transitionToOn t1 d) = d \<and>
         signals (transitionToOn t3 (transitionToOff t2 (transitionToOn t1 d))) =
           signals d @ [\<lparr>startTime = lastChangeTime d, duration = t3 - lastChangeTime d, state = Off\<rparr>]"
proof -
  from assms(2) have normal: "0.015 \<le> t1 - lastChangeTime d \<or> signals d = []"
    by auto
  from assms(2) have pushes: "signals d \<noteq> [] \<or> lastChangeTime d > 0"
    by auto
  let ?d1 = "transitionToOn t1 d"
  from pushes have d1: "?d1 = d\<lparr>signals := signals d @ [\<lparr>startTime = lastChangeTime d,
                                     duration = t1 - lastChangeTime d, state = Off\<rparr>],
                           lastChangeTime := t1, signalState := True\<rparr>"
    by (simp add: transitionToOn_normal [OF normal])
  from assms(3) have "t2 - lastChangeTime ?d1 < 0.015"
    by (simp add: d1)
  then have "transitionToOff t2 ?d1 = d\<lparr>signalState := False\<rparr>"
    by (simp add: transitionToOff_glitch) (simp add: d1)
  with assms(1) have restored: "transitionToOff t2 ?d1 = d"
    by simp
  from assms(4) pushes show ?thesis
    by (simp add: restored transitionToOn_normal)
qed

text \<open>The amended claim at a pulse of 5 ms after one committed ON interval.\<close>

theorem short_on_pulse_merged_witness:
  "transitionToOff 2.005 (transitionToOn 2
      \<lparr>env = 0, signalState = False, maxValInChunk = 0,
       signals = [\<lparr>startTime = 0, duration = 1, state = On\<rparr>], lastChangeTime = 1\<rparr>)
     = \<lparr>env = 0, signalState = False, maxValInChunk = 0,
        signals = [\<lparr>startTime = 0, duration = 1, state = On\<rparr>], lastChangeTime = 1\<rparr> \<and>
   signals (transitionToOn 3 (transitionToOff 2.005 (transitionToOn 2
      \<lparr>env = 0, signalState = False, maxValInChunk = 0,
       signals = [\<lparr>startTime = 0, duration = 1, state = On\<rparr>], lastChangeTime = 1\<rparr>)))
     = [\<lparr>startTime = 0, duration = 1, state = On\<rparr>, \<lparr>startTime = 1, duration = 2, state = Off\<rparr>]"
proof -
  let ?d = "\<lparr>env = 0, signalState = False, maxValInChunk = 0,
             signals = [\<lparr>startTime = 0, duration = 1, state = On\<rparr>], lastChangeTime = 1\<rparr>"
  have merged: "transitionToOff 2.005 (transitionToOn 2 ?d) = ?d \<and>
      signals (transitionToOn 3 (transitionToOff 2.005 (transitionToOn 2 ?d))) =
        signals ?d @ [\<lparr>startTime = lastChangeTime ?d, duration = 3 - lastChangeTime ?d, state = Off\<rparr>]"
    by (rule short_on_pulse_merged) simp_all
  from merged have "transitionToOff 2.005 (transitionToOn 2 ?d) = ?d"
    by (rule conjunct1)
  moreover from merged have "signals (transitionToOn 3 (transitionToOff 2.005 (transitionToOn 2 ?d)))
      = [\<lparr>startTime = 0, duration = 1, state = On\<rparr>, \<lparr>startTime = 1, duration = 2, state = Off\<rparr>]"
    by (rule conjunct2 [THEN trans]) simp
  ultimately show ?thesis
    by (intro conjI)
qed

text \<open>
  Claim C2 as stated fails in two situations.

  At the start of a capture: the session starts at time 0 with threshold 0.1; the block
  played at 1 s holds one sample of 0.26 followed by silence. The envelope rises to
  0.104, so the detector goes ON at 1 s; at the 28th silent sample (0.58 ms later at
  48 kHz) the envelope is below 0.06 and the detector goes OFF. Nothing is committed and
  \<open>lastChangeTime\<close> stays at 1, so the tone that starts at 2 s commits an OFF interval
  that starts at 1 s, where the pulse began: the OFF period from 0 to 1 s is not part of
  it. With silence in place of the pulse the same tone commits nothing.

  After an OFF gap that is itself shorter than 15 ms: with an ON interval from 0 to 1 s
  committed, an ON edge at 1.005 s reopens that ON interval, and the OFF edge at 1.010 s
  commits it as one ON interval of 1.01 s. The pulse is merged with the tone before it,
  not with the silence around it.
\<close>

theorem short_pulse_not_merged:
  "isSignalOnRef (onaudioprocess \<lparr>inputData = 0.26 # replicate 27 0, sampleRate = 48000, playbackTime = 1\<rparr>
      (startListening True 0 (initialKeyer 0.1))) \<and>
   \<not> isSignalOnRef (onaudioprocess \<lparr>inputData = 0.26 # replicate 28 0, sampleRate = 48000, playbackTime = 1\<rparr>
      (startListening True 0 (initialKeyer 0.1))) \<and>
   signalsRef (onaudioprocess \<lparr>inputData = [1], sampleRate = 48000, playbackTime = 2\<rparr>
     (onaudioprocess \<lparr>inputData = 0.26 # replicate 28 0, sampleRate = 48000, playbackTime = 1\<rparr>
      (startListening True 0 (initialKeyer 0.1))))
     = [\<lparr>startTime = 1, duration = 1, state = Off\<rparr>] \<and>
   signalsRef (onaudioprocess \<lparr>inputData = [1], sampleRate = 48000, playbackTime = 2\<rparr>
     (onaudioprocess \<lparr>inputData = replicate 29 0, sampleRate = 48000, playbackTime = 1\<rparr>
      (startListening True 0 (initialKeyer 0.1)))) = [] \<and>
   signals (transitionToOff 1.010 (transitionToOn 1.005
      \<lparr>env = 0, signalState = False, maxValInChunk = 0,
       signals = [\<lparr>startTime = 0, duration = 1, state = On\<rparr>], lastChangeTime = 1\<rparr>))
     = [\<lparr>startTime = 0, duration = 1.010, state = On\<rparr>]"
proof -
  let ?k = "startListening True 0 (initialKeyer 0.1)"
  let ?pulse27 = "\<lparr>inputData = 0.26 # replicate 27 0, sampleRate = 48000, playbackTime = 1\<rparr>"
  let ?pulse28 = "\<lparr>inputData = 0.26 # replicate 28 0, sampleRate = 48000, playbackTime = 1\<rparr>"
  let ?silence = "\<lparr>inputData = replicate 29 0, sampleRate = 48000, playbackTime = 1\<rparr>"
  let ?tone = "\<lparr>inputData = [1], sampleRate = 48000, playbackTime = 2\<rparr>"
  let ?loop = "sampleLoop 0.1 (0.1 * 0.6) 1 48000 0"
  let ?d0 = "\<lparr>env = 0, signalState = False, maxValInChunk = 0, signals = [], lastChangeTime = 0\<rparr>"
  let ?dOn = "\<lparr>env = 0.104, signalState = True, maxValInChunk = 0.26, signals = [], lastChangeTime = 1\<rparr>"
  let ?dOff = "\<lparr>env = 0.104 * 0.98 ^ 28, signalState = False, maxValInChunk = 0.26,
                signals = [], lastChangeTime = 1\<rparr>"
  have k: "thresholdRef ?k = 0.1" "startTimeRef ?k = 0" "smoothedEnvRef ?k = 0"
    "isSignalOnRef ?k = False" "signalsRef ?k = []" "lastChangeTimeRef ?k = 0"
    by (simp_all add: startListening_def initialKeyer_def)
  have first: "processSample 0.1 (0.1 * 0.6) 1 48000 0 0 0.26 ?d0 = ?dOn"
    by (simp add: processSample_def transitionToOn_def Let_def)
  have quiet: "?loop (Suc 0) (replicate 27 0) ?dOn = ?dOn\<lparr>env := 0.104 * 0.98 ^ 27\<rparr>"
  proof -
    have "(0.1::real) * 0.6 \<le> env ?dOn * 0.98 ^ 27"
      by (simp add: power_divide)
    then show ?thesis
      using sampleLoop_quiet [of ?dOn "0.1 * 0.6" 27 "0.1" 1 48000 0 "Suc 0"] by simp
  qed
  have pulse: "?loop 0 (0.26 # replicate 27 0) ?d0 = ?dOn\<lparr>env := 0.104 * 0.98 ^ 27\<rparr>"
    by (simp only: sampleLoop.simps first quiet)
  have r28: "replicate 28 (0::real) = replicate 27 0 @ [0]"
  proof -
    have "(28::nat) = Suc 27"
      by simp
    then show ?thesis
      by (simp only: replicate_Suc replicate_append_same)
  qed
  have ended: "?loop 0 (0.26 # replicate 28 0) ?d0 = ?dOff"
    unfolding r28 append_Cons [symmetric] sampleLoop_append pulse
    by (simp add: processSample_def transitionToOff_def Let_def power_divide)
  have silent: "?loop 0 (replicate 29 0) ?d0 = ?d0"
    by (rule sampleLoop_silent) simp_all
  have b27: "blockResult ?pulse27 ?k = ?dOn\<lparr>env := 0.104 * 0.98 ^ 27\<rparr>"
    unfolding blockResult_def Let_def k audioEvent.select_convs by (rule pulse)
  have b28: "blockResult ?pulse28 ?k = ?dOff"
    unfolding blockResult_def Let_def k audioEvent.select_convs by (rule ended)
  have b29: "blockResult ?silence ?k = ?d0"
    unfolding blockResult_def Let_def k audioEvent.select_convs by (rule silent)
  have tone: "sampleLoop 0.1 (0.1 * 0.6) 2 48000 0 0 [1]
                 \<lparr>env = e, signalState = False, maxValInChunk = 0, signals = [], lastChangeTime = l\<rparr>
              = \<lparr>env = e * 0.6 + 0.4, signalState = True, maxValInChunk = 1,
                 signals = (if 0 < l then [\<lparr>startTime = l, duration = 2 - l, state = Off\<rparr>] else []),
                 lastChangeTime = 2\<rparr>"
    if "0 \<le> e" and "e < 1" for e l
    using that by (simp add: processSample_def transitionToOn_def Let_def)
  have e28: "(0::real) \<le> 0.104 * 0.98 ^ 28" "(0.104::real) * 0.98 ^ 28 < 1"
    by (simp_all add: power_divide)
  have kPulse: "thresholdRef (onaudioprocess ?pulse28 ?k) = 0.1"
    "startTimeRef (onaudioprocess ?pulse28 ?k) = 0"
    "smoothedEnvRef (onaudioprocess ?pulse28 ?k) = 0.104 * 0.98 ^ 28"
    "isSignalOnRef (onaudioprocess ?pulse28 ?k) = False"
    "signalsRef (onaudioprocess ?pulse28 ?k) = []"
    "lastChangeTimeRef (onaudioprocess ?pulse28 ?k) = 1"
    by (simp_all only: onaudioprocess_def writeBack_refs writeBack_frame b28 k detector.select_convs)
  have kSilence: "thresholdRef (onaudioprocess ?silence ?k) = 0.1"
    "startTimeRef (onaudioprocess ?silence ?k) = 0"
    "smoothedEnvRef (onaudioprocess ?silence ?k) = 0"
    "isSignalOnRef (onaudioprocess ?silence ?k) = False"
    "signalsRef (onaudioprocess ?silence ?k) = []"
    "lastChangeTimeRef (onaudioprocess ?silence ?k) = 0"
    by (simp_all only: onaudioprocess_def writeBack_refs writeBack_frame b29 k detector.select_convs)
  have afterPulse: "blockResult ?tone (onaudioprocess ?pulse28 ?k) =
          \<lparr>env = 0.104 * 0.98 ^ 28 * 0.6 + 0.4, signalState = True, maxValInChunk = 1,
           signals = [\<lparr>startTime = 1, duration = 1, state = Off\<rparr>], lastChangeTime = 2\<rparr>"
    unfolding blockResult_def Let_def kPulse audioEvent.select_convs
    by (simp only: tone [OF e28]) simp
  have afterSilence: "blockResult ?tone (onaudioprocess ?silence ?k) =
          \<lparr>env = 0 * 0.6 + 0.4, signalState = True, maxValInChunk = 1,
           signals = [], lastChangeTime = 2\<rparr>"
    unfolding blockResult_def Let_def kSilence audioEvent.select_convs
    by (simp only: tone [of 0 0]) simp
  have "isSignalOnRef (onaudioprocess ?pulse27 ?k)"
    unfolding onaudioprocess_def writeBack_refs b27 by simp
  moreover have "\<not> isSignalOnRef (onaudioprocess ?pulse28 ?k)"
    unfolding kPulse by simp
  moreover have "signalsRef (onaudioprocess ?tone (onaudioprocess ?pulse28 ?k))
                   = [\<lparr>startTime = 1, duration = 1, state = Off\<rparr>]"
    unfolding onaudioprocess_def [of ?tone] writeBack_refs afterPulse by simp
  moreover have "signalsRef (onaudioprocess ?tone (onaudioprocess ?silence ?k)) = []"
    unfolding onaudioprocess_def [of ?tone] writeBack_refs afterSilence by simp
  moreover have "signals (transitionToOff 1.010 (transitionToOn 1.005
      \<lparr>env = 0, signalState = False, maxValInChunk = 0,
       signals = [\<lparr>startTime = 0, duration = 1, state = On\<rparr>], lastChangeTime = 1\<rparr>))
     = [\<lparr>startTime = 0, duration = 1.010, state = On\<rparr>]"
    by (simp add: transitionToOn_def transitionToOff_def Let_def)
  ultimately show ?thesis
    by (intro conjI)
qed

subsection \<open>The normal rule\<close>

text \<open>
  Claim C3, as amended. At a transition whose gap \<open>t - lastChangeTime\<close> is at least
  15 ms, the ON-to-OFF branch, and the OFF-to-ON branch when the committed list is not
  empty or \<open>lastChangeTime\<close> is positive, push the interval that starts at
  \<open>lastChangeTime\<close>, lasts for the gap and has the pending state, then set
  \<open>lastChangeTime\<close> to \<open>t\<close> and flip the pending state. The OFF-to-ON branch with an empty
  list and \<open>lastChangeTime\<close> not above 0 (the first ON edge after start or reset) pushes
  nothing and only sets \<open>lastChangeTime\<close> to \<open>t\<close> and the pending state to ON.
\<close>

theorem normal_rule_commit:
  assumes "0.015 \<le> t - lastChangeTime d"
  shows "(signalState d \<longrightarrow> transitionToOff t d = normalRule t d) \<and>
         (\<not> signalState d \<and> (signals d \<noteq> [] \<or> lastChangeTime d > 0) \<longrightarrow>
            transitionToOn t d = normalRule t d) \<and>
         (\<not> signalState d \<and> signals d = [] \<and> lastChangeTime d \<le> 0 \<longrightarrow>
            transitionToOn t d = d\<lparr>lastChangeTime := t, signalState := True\<rparr>)"
  using assms
  by (auto simp: transitionToOn_normal transitionToOff_normal normalRule_def)

text \<open>The three cases of the amended claim at a gap of one second.\<close>

theorem normal_rule_commit_witness:
  "transitionToOff 2 \<lparr>env = 0, signalState = True, maxValInChunk = 0,
        signals = [\<lparr>startTime = 0, duration = 1, state = Off\<rparr>], lastChangeTime = 1\<rparr>
   = \<lparr>env = 0, signalState = False, maxValInChunk = 0,
        signals = [\<lparr>startTime = 0, duration = 1, state = Off\<rparr>, \<lparr>startTime = 1, duration = 1, state = On\<rparr>],
      lastChangeTime = 2\<rparr> \<and>
   transitionToOn 2 \<lparr>env = 1, signalState = False, maxValInChunk = 0,
        signals = [\<lparr>startTime = 0, duration = 1, state = On\<rparr>], lastChangeTime = 1\<rparr>
   = \<lparr>env = 1, signalState = True, maxValInChunk = 0,
        signals = [\<lparr>startTime = 0, duration = 1, state = On\<rparr>, \<lparr>startTime = 1, duration = 1, state = Off\<rparr>],
      lastChangeTime = 2\<rparr> \<and>
   transitionToOn 2 \<lparr>env = 1, signalState = False, maxValInChunk = 0, signals = [], lastChangeTime = 0\<rparr>
   = \<lparr>env = 1, signalState = True, maxValInChunk = 0, signals = [], lastChangeTime = 2\<rparr>"
  using normal_rule_commit [of 2 "\<lparr>env = 0, signalState = True, maxValInChunk = 0,
        signals = [\<lparr>startTime = 0, duration = 1, state = Off\<rparr>], lastChangeTime = 1\<rparr>"]
    normal_rule_commit [of 2 "\<lparr>env = 1, signalState = False, maxValInChunk = 0,
        signals = [\<lparr>startTime = 0, duration = 1, state = On\<rparr>], lastChangeTime = 1\<rparr>"]
    normal_rule_commit [of 2 "\<lparr>env = 1, signalState = False, maxValInChunk = 0, signals = [], lastChangeTime = 0\<rparr>"]
  by (simp add: normalRule_def)

text \<open>
  Claim C3 as stated fails at the very first ON edge. The session starts at time 0; the
  block played at 1 s holds one sample of full amplitude, so the detector goes ON at 1 s
  with a gap of one second. The committed list is still empty afterwards.
\<close>

theorem first_on_edge_not_pushed:
  "signalsRef (onaudioprocess \<lparr>inputData = [1], sampleRate = 48000, playbackTime = 1\<rparr>
                 (startListening True 0 (initialKeyer 0.1))) = [] \<and>
   isSignalOnRef (onaudioprocess \<lparr>inputData = [1], sampleRate = 48000, playbackTime = 1\<rparr>
                 (startListening True 0 (initialKeyer 0.1))) \<and>
   lastChangeTimeRef (onaudioprocess \<lparr>inputData = [1], sampleRate = 48000, playbackTime = 1\<rparr>
                 (startListening True 0 (initialKeyer 0.1))) = 1"
  by (simp add: onaudioprocess_def blockResult_def writeBack_refs startListening_def
        initialKeyer_def processSample_def transitionToOn_def Let_def)

section \<open>Stopping a session\<close>

text \<open>
  Claim C4. While the keyer is listening with pending state OFF on an open audio
  context, the periodic check stops the session exactly when an interval is committed
  and the silence since the last change exceeds 5 seconds: then \<open>stopListening\<close> runs,
  the keyer no longer listens and no further frame is requested. Otherwise nothing but
  the level meter changes and the next frame is requested.
\<close>

theorem autopause_threshold:
  assumes "isListening k" and "\<not> isSignalOnRef k" and "audioContextOpen k"
  shows "if signalsRef k \<noteq> [] \<and> 5 < max 0 (now - startTimeRef k) - lastChangeTimeRef k
         then updateUI now k = stopListening now (k\<lparr>currentLevel := currentLevelRef k\<rparr>) \<and>
              \<not> isListening (updateUI now k) \<and> \<not> audioContextOpen (updateUI now k) \<and>
              \<not> rafScheduled (updateUI now k)
         else updateUI now k = k\<lparr>currentLevel := currentLevelRef k, rafScheduled := True\<rparr>"
  using assms by (simp add: updateUI_def stopListening_def cleanup_def Let_def)

text \<open>
  With one committed interval and the last change at 1 s, the check at 6.1 s (5.1 s of
  silence) stops the session and the check at 5.9 s (4.9 s) does not; with nothing
  committed, the check at 100 s does not stop it either.
\<close>

theorem autopause_threshold_witness:
  "\<not> isListening (updateUI 6.1 ((startListening True 0 (initialKeyer 0.1))
        \<lparr>signalsRef := [\<lparr>startTime = 0.5, duration = 0.5, state = On\<rparr>], lastChangeTimeRef := 1\<rparr>)) \<and>
   isListening (updateUI 5.9 ((startListening True 0 (initialKeyer 0.1))
        \<lparr>signalsRef := [\<lparr>startTime = 0.5, duration = 0.5, state = On\<rparr>], lastChangeTimeRef := 1\<rparr>)) \<and>
   isListening (updateUI 100 (startListening True 0 (initialKeyer 0.1)))"
proof -
  let ?fresh = "startListening True 0 (initialKeyer 0.1)"
  let ?k = "?fresh\<lparr>signalsRef := [\<lparr>startTime = 0.5, duration = 0.5, state = On\<rparr>], lastChangeTimeRef := 1\<rparr>"
  have pre: "isListening ?k" "\<not> isSignalOnRef ?k" "audioContextOpen ?k"
    and pre0: "isListening ?fresh" "\<not> isSignalOnRef ?fresh" "audioContextOpen ?fresh"
    by (simp_all add: startListening_def initialKeyer_def)
  have late: "signalsRef ?k \<noteq> [] \<and> 5 < max 0 (6.1 - startTimeRef ?k) - lastChangeTimeRef ?k"
    and early: "\<not> (signalsRef ?k \<noteq> [] \<and> 5 < max 0 (5.9 - startTimeRef ?k) - lastChangeTimeRef ?k)"
    and none: "\<not> (signalsRef ?fresh \<noteq> [] \<and> 5 < max 0 (100 - startTimeRef ?fresh) - lastChangeTimeRef ?fresh)"
    by (simp_all add: startListening_def initialKeyer_def)
  from autopause_threshold [OF pre, of "6.1", unfolded if_P [OF late]]
  have "\<not> isListening (updateUI 6.1 ?k)"
    by (elim conjE)
  moreover from autopause_threshold [OF pre, of "5.9", unfolded if_not_P [OF early]] pre(1)
  have "isListening (updateUI 5.9 ?k)"
    by simp
  moreover from autopause_threshold [OF pre0, of 100, unfolded if_not_P [OF none]] pre0(1)
  have "isListening (updateUI 100 ?fresh)"
    by simp
  ultimately show ?thesis
    by (intro conjI)
qed

text \<open>
  Claim C5. When \<open>stopListening\<close> runs on an open audio context, the open segment (from
  \<open>lastChangeTime\<close> to the current session time, in the pending state) is appended to
  the committed list if and only if it is longer than 10 ms; in both cases the session
  ends.
\<close>

theorem stop_commits_pending:
  assumes "audioContextOpen k"
  shows "signalsRef (stopListening now k) =
           (if 0.01 < max 0 (now - startTimeRef k) - lastChangeTimeRef k
            then signalsRef k @ [\<lparr>startTime = lastChangeTimeRef k,
                                   duration = max 0 (now - startTimeRef k) - lastChangeTimeRef k,
                                   state = (if isSignalOnRef k then On else Off)\<rparr>]
            else signalsRef k) \<and>
         \<not> isListening (stopListening now k) \<and> \<not> audioContextOpen (stopListening now k)"
  using assms by (simp add: stopListening_def cleanup_def Let_def)

text \<open>
  A session started at 1 s with an ON segment open since 0.5 s of session time: stopping
  at 3 s commits the segment of 1.5 s, stopping at 1.505 s (5 ms) commits nothing.
\<close>

theorem stop_commits_pending_witness:
  "signalsRef (stopListening 3 ((startListening True 1 (initialKeyer 0.1))\<lparr>isSignalOnRef := True, lastChangeTimeRef := 0.5\<rparr>))
     = [\<lparr>startTime = 0.5, duration = 1.5, state = On\<rparr>] \<and>
   \<not> isListening (stopListening 3 ((startListening True 1 (initialKeyer 0.1))\<lparr>isSignalOnRef := True, lastChangeTimeRef := 0.5\<rparr>)) \<and>
   signalsRef (stopListening 1.505 ((startListening True 1 (initialKeyer 0.1))\<lparr>isSignalOnRef := True, lastChangeTimeRef := 0.5\<rparr>))
     = []"
  using stop_commits_pending [of "(startListening True 1 (initialKeyer 0.1))\<lparr>isSignalOnRef := True, lastChangeTimeRef := 0.5\<rparr>" 3]
    stop_commits_pending [of "(startListening True 1 (initialKeyer 0.1))\<lparr>isSignalOnRef := True, lastChangeTimeRef := 0.5\<rparr>" "1.505"]
  by (simp add: startListening_def initialKeyer_def)

section \<open>The ideal timing synthesizer\<close>
















section \<open>Alignment\<close>

lemma find_filter_conv:
  "find P xs = (case filter P xs of [] \<Rightarrow> None | x # _ \<Rightarrow> Some x)"
  by (induction xs) simp_all

text \<open>
  Claim C8. The alignment is empty when the ideal or the captured sequence has no ON
  interval. Otherwise every captured interval is moved by the difference between the
  start of the first ideal ON interval and the start of the first captured ON interval;
  durations and states are unchanged.
\<close>

theorem alignment_shift:
  "alignedUserSignals ideal captured =
     (if filter (\<lambda>s. state s = On) ideal = [] \<or> filter (\<lambda>s. state s = On) captured = [] then []
      else map (\<lambda>s. s\<lparr>startTime := startTime s +
                      (startTime (hd (filter (\<lambda>s. state s = On) ideal)) -
                       startTime (hd (filter (\<lambda>s. state s = On) captured)))\<rparr>) captured) \<and>
   (alignedUserSignals ideal captured = [] \<or>
      (map duration (alignedUserSignals ideal captured) = map duration captured \<and>
       map state (alignedUserSignals ideal captured) = map state captured))"
  by (auto simp: alignedUserSignals_def find_filter_conv Let_def split: list.splits)

text \<open>
  The first ideal ON interval at 2.0 s and the first captured one at 0.5 s: every start
  moves by 1.5 s. A side without an ON interval gives the empty alignment.
\<close>

theorem alignment_shift_witness:
  "alignedUserSignals
     [\<lparr>startTime = 2, duration = 0.1, state = On\<rparr>, \<lparr>startTime = 2.1, duration = 0.3, state = Off\<rparr>]
     [\<lparr>startTime = 0.2, duration = 0.3, state = Off\<rparr>, \<lparr>startTime = 0.5, duration = 0.2, state = On\<rparr>,
      \<lparr>startTime = 0.7, duration = 0.4, state = Off\<rparr>]
   = [\<lparr>startTime = 0.2 + 1.5, duration = 0.3, state = Off\<rparr>, \<lparr>startTime = 0.5 + 1.5, duration = 0.2, state = On\<rparr>,
      \<lparr>startTime = 0.7 + 1.5, duration = 0.4, state = Off\<rparr>] \<and>
   alignedUserSignals [] [\<lparr>startTime = 0.5, duration = 0.2, state = On\<rparr>] = [] \<and>
   alignedUserSignals [\<lparr>startTime = 2, duration = 0.1, state = On\<rparr>] [\<lparr>startTime = 0.2, duration = 0.3, state = Off\<rparr>] = []"
  using alignment_shift [of "[\<lparr>startTime = 2, duration = 0.1, state = On\<rparr>, \<lparr>startTime = 2.1, duration = 0.3, state = Off\<rparr>]"
     "[\<lparr>startTime = 0.2, duration = 0.3, state = Off\<rparr>, \<lparr>startTime = 0.5, duration = 0.2, state = On\<rparr>,
      \<lparr>startTime = 0.7, duration = 0.4, state = Off\<rparr>]"]
    alignment_shift [of "[]" "[\<lparr>startTime = 0.5, duration = 0.2, state = On\<rparr>]"]
    alignment_shift [of "[\<lparr>startTime = 2, duration = 0.1, state = On\<rparr>]" "[\<lparr>startTime = 0.2, duration = 0.3, state = Off\<rparr>]"]
  by simp

section \<open>The command detector\<close>

lemma sliceLast3_nth:
  assumes "3 \<le> length xs"
  shows "sliceLast3 xs ! 0 = xs ! (length xs - 3)"
    and "sliceLast3 xs ! 1 = xs ! (length xs - 2)"
    and "sliceLast3 xs ! 2 = xs ! (length xs - 1)"
proof -
  have at: "sliceLast3 xs ! i = xs ! (length xs - 3 + i)" for i
    unfolding sliceLast3_def by (rule nth_drop) simp
  from assms have idx: "length xs - 3 + 0 = length xs - 3" "length xs - 3 + 1 = length xs - 2"
    "length xs - 3 + 2 = length xs - 1"
    by arith+
  show "sliceLast3 xs ! 0 = xs ! (length xs - 3)"
    using at [of 0] by (simp only: idx)
  show "sliceLast3 xs ! 1 = xs ! (length xs - 2)"
    using at [of 1] by (simp only: idx)
  show "sliceLast3 xs ! 2 = xs ! (length xs - 1)"
    using at [of 2] by (simp only: idx)
qed

text \<open>
  Claim C9. For the default command character K, \<open>detectCommand\<close> is true exactly when the
  list has at least three ON intervals and, of the last three, the first and the third
  last longer than two units and the middle one shorter than two units; the unit is
  1.2 / w seconds.
\<close>

theorem detectCommand_iff:
  assumes "w \<noteq> 0"
  shows "detectCommand S w (CHR ''K'') =
     (3 \<le> length (filter (\<lambda>s. state s = On) S) \<and>
      2 * (1.2 / w) < duration (filter (\<lambda>s. state s = On) S ! (length (filter (\<lambda>s. state s = On) S) - 3)) \<and>
      duration (filter (\<lambda>s. state s = On) S ! (length (filter (\<lambda>s. state s = On) S) - 2)) < 2 * (1.2 / w) \<and>
      2 * (1.2 / w) < duration (filter (\<lambda>s. state s = On) S ! (length (filter (\<lambda>s. state s = On) S) - 1)))"
proof -
  let ?ons = "filter (\<lambda>s. state s = On) S"
  have K: "MORSE_MAP (CHR ''K'') = Some ''-.-''"
    by (simp add: MORSE_MAP_def)
  have short: "length ?ons < 3" if "length S < 3"
    by (rule le_less_trans [OF length_filter_le that])
  have u: "calculateDotLength w / 1000 * 2.0 = 2 * (1.2 / w)"
    by (simp add: calculateDotLength_def)
  have unfold: "detectCommand S w (CHR ''K'') =
      (3 \<le> length ?ons \<and>
       calculateDotLength w / 1000 * 2.0 < duration (sliceLast3 ?ons ! 0) \<and>
       duration (sliceLast3 ?ons ! 1) < calculateDotLength w / 1000 * 2.0 \<and>
       calculateDotLength w / 1000 * 2.0 < duration (sliceLast3 ?ons ! 2))"
    using short by (auto simp: detectCommand_def Let_def K)
  show ?thesis
  proof (cases "3 \<le> length ?ons")
    case True
    show ?thesis
      unfolding unfold sliceLast3_nth [OF True] u by (rule refl)
  next
    case False
    then show ?thesis
      unfolding unfold by simp
  qed
qed

text \<open>The ideal timing of "EK" ends in dash, dot, dash; that of "KE" does not; "T" has one ON interval.\<close>

theorem detectCommand_iff_witness:
  "detectCommand (textToIdealTiming ''EK'' 12) 12 (CHR ''K'') \<and>
   \<not> detectCommand (textToIdealTiming ''KE'' 12) 12 (CHR ''K'') \<and>
   \<not> detectCommand (textToIdealTiming ''T'' 12) 12 (CHR ''K'')"
  using detectCommand_iff [of 12 "textToIdealTiming ''EK'' 12"]
    detectCommand_iff [of 12 "textToIdealTiming ''KE'' 12"]
    detectCommand_iff [of 12 "textToIdealTiming ''T'' 12"]
  by (simp add: textToIdealTiming_def cleanTextOf_def toUpperCase_def supportedChars_def
        charStep_def MORSE_MAP_def calculateDotLength_def Let_def)

end
